theory Spec2Isabelle
  imports Complex_Main "HOL-Library.Word" "HOL-Library.Multiset"
begin

section \<open>Data model\<close>

subsection \<open>Configuration and command line\<close>

text \<open>
  The struct \<^verbatim>\<open>Config\<close> of main.go. Every field is a Go string; the empty string is
  the zero value that \<^verbatim>\<open>validate\<close> tests for.
\<close>

record Config =
  Region :: string
  ClusterID :: string
  Namespace :: string
  SecretID :: string
  SecretKey :: string

text \<open>
  The package-level flag variables, as they stand after \<^verbatim>\<open>flag.Parse()\<close>.
\<close>

record flags =
  kubeconfig :: string
  configPath :: string
  startTimeStr :: string
  endTimeStr :: string
  debug :: bool

subsection \<open>The monitoring request\<close>

text \<open>
  \<^verbatim>\<open>monitor.MidQueryCondition\<close> and \<^verbatim>\<open>monitor.DescribeStatisticDataRequest\<close>, with the
  fields the program sets. The program fills every pointer field through
  \<^verbatim>\<open>common.StringPtr\<close>, \<^verbatim>\<open>common.StringPtrs\<close> and \<^verbatim>\<open>common.Uint64Ptr\<close>, so none is nil
  and the fields are modelled by their values. The value list of a condition is called
  \<open>CondValue\<close> and the request's metric namespace \<open>ReqNamespace\<close>, since \<open>Value\<close> and
  \<open>Namespace\<close> are fields of other structs too. \<open>Period\<close> is a Go \<^verbatim>\<open>uint64\<close>.
\<close>

record MidQueryCondition =
  Key :: string
  Operator :: string
  CondValue :: "string list"

record DescribeStatisticDataRequest =
  Module :: string
  ReqNamespace :: string
  MetricNames :: "string list"
  Conditions :: "MidQueryCondition list"
  Period :: "64 word"
  StartTime :: string
  EndTime :: string

text \<open>
  What \<^verbatim>\<open>monitor.NewClient(credential, config.Region, cpf)\<close> is built from: the two
  credential strings, the region and the endpoint of the client profile.
\<close>

record Client =
  CredentialSecretId :: string
  CredentialSecretKey :: string
  ClientRegion :: string
  Endpoint :: string

subsection \<open>The monitoring response\<close>

text \<open>
  The response structs of the monitoring SDK, with the fields the program reads. Each Go
  pointer that the decoder may leave nil is an \<open>option\<close>: the elements of \<^verbatim>\<open>Data\<close>,
  \<^verbatim>\<open>Points\<close> and \<^verbatim>\<open>Values\<close> have pointer type, as have \<^verbatim>\<open>MetricName\<close>, \<^verbatim>\<open>Value\<close> and
  the \<^verbatim>\<open>Response\<close> field itself. A \<^verbatim>\<open>float64\<close> that was decoded from the JSON body is
  finite, and the program only compares such values with \<^verbatim>\<open>>\<close> and copies them, so
  they are modelled by the reals they denote.
\<close>

record Point =
  Value :: "real option"

record MetricDataPoint =
  Values :: "Point option list"

record MetricData =
  MetricName :: "string option"
  Points :: "MetricDataPoint option list"

record DescribeStatisticDataResponseParams =
  Data :: "MetricData option list"

record DescribeStatisticDataResponse =
  Response :: "DescribeStatisticDataResponseParams option"

text \<open>
  The pair \<^verbatim>\<open>(response, err)\<close> that \<^verbatim>\<open>client.DescribeStatisticData\<close> returns: an error
  whose dynamic type is \<^verbatim>\<open>*errors.TencentCloudSDKError\<close>, any other non-nil error, or a
  response with a nil error. An error is carried as the text it prints.
\<close>

datatype api_result =
  TencentCloudSDKError string
| OtherError string
| NoError DescribeStatisticDataResponse

subsection \<open>Failures and the log\<close>

text \<open>
  \<^verbatim>\<open>klog.Fatal\<close> and \<^verbatim>\<open>klog.Fatalf\<close> log their message and end the process at once:
  \<open>Fatal\<close> carries the message. Reading through a nil pointer panics with Go's run-time
  error for a nil pointer dereference, which ends the process too.
\<close>

datatype error = Fatal string | NilPointerDereference

datatype severity = INFO | WARNING

type_synonym log = "(severity \<times> string) list"

subsection \<open>The environment\<close>

text \<open>
  Everything the program obtains from outside itself: the file system, the YAML
  decoder, Go's \<^verbatim>\<open>time\<close> package, the Kubernetes client, the monitoring API and
  \<^verbatim>\<open>fmt.Sprintf("%f", _)\<close>. A call that returns a Go \<^verbatim>\<open>error\<close> gives \<open>Inl\<close> of the
  error's text when the error is not nil. \<open>'t\<close> is \<^verbatim>\<open>time.Time\<close>, \<open>'k\<close> the REST
  configuration and \<open>'c\<close> the clientset. \<open>listDeployments\<close> gives the \<^verbatim>\<open>Name\<close> of each
  element of \<^verbatim>\<open>deployments.Items\<close>, in the order of that slice.
\<close>

record ('t, 'k, 'c) world =
  ReadFile :: "string \<Rightarrow> string + string"
  yamlUnmarshal :: "string \<Rightarrow> string + Config"
  timeParse :: "string \<Rightarrow> string \<Rightarrow> string + 't"
  timeFormat :: "'t \<Rightarrow> string \<Rightarrow> string"
  BuildConfigFromFlags :: "string \<Rightarrow> string \<Rightarrow> string + 'k"
  NewForConfig :: "'k \<Rightarrow> string + 'c"
  listDeployments :: "'c \<Rightarrow> string \<Rightarrow> string + string list"
  osCreate :: "string \<Rightarrow> string option"
  DescribeStatisticData :: "Client \<Rightarrow> DescribeStatisticDataRequest \<Rightarrow> api_result"
  ToJsonString :: "DescribeStatisticDataResponse \<Rightarrow> string"
  sprintf_f :: "real \<Rightarrow> string"

section \<open>The program\<close>

subsection \<open>validate\<close>

text \<open>\<open>None\<close> is the nil error; \<open>Some\<close> carries the text given to \<^verbatim>\<open>fmt.Errorf\<close>.\<close>

definition validate :: "Config \<Rightarrow> string option" where
  "validate config =
    (if Region config = '''' then Some ''region is required''
     else if ClusterID config = '''' then Some ''clusterID is required''
     else if Namespace config = '''' then Some ''namespace is required''
     else if SecretID config = '''' then Some ''secretID is required''
     else if SecretKey config = '''' then Some ''secretKey is required''
     else None)"

subsection \<open>getDeploymentMetrics\<close>

text \<open>The two metric names, which the function writes out three times each.\<close>

definition cpuMetric :: string where
  "cpuMetric = ''K8sWorkloadRateCpuCoreUsedRequestMax''"

definition memMetric :: string where
  "memMetric = ''K8sWorkloadRateMemWorkingSetBytesRequestMax''"

definition newClient :: "Config \<Rightarrow> Client" where
  "newClient config =
    \<lparr>CredentialSecretId = SecretID config, CredentialSecretKey = SecretKey config,
     ClientRegion = Region config, Endpoint = ''monitor.tencentcloudapi.com''\<rparr>"

text \<open>The request object, as the function has assigned it when it sends it.\<close>

definition buildRequest :: "Config \<Rightarrow> string \<Rightarrow> string \<Rightarrow> string \<Rightarrow> DescribeStatisticDataRequest" where
  "buildRequest config deploymentName startTime endTime =
    \<lparr>Module = ''monitor'',
     ReqNamespace = ''QCE/TKE2'',
     MetricNames = [cpuMetric, memMetric],
     Conditions =
       [\<lparr>Key = ''tke_cluster_instance_id'', Operator = ''='', CondValue = [ClusterID config]\<rparr>,
        \<lparr>Key = ''namespace'', Operator = ''='', CondValue = [Namespace config]\<rparr>,
        \<lparr>Key = ''workload_kind'', Operator = ''='', CondValue = [''Deployment'']\<rparr>,
        \<lparr>Key = ''workload_name'', Operator = ''='', CondValue = [deploymentName]\<rparr>],
     Period = 3600,
     StartTime = startTime,
     EndTime = endTime\<rparr>"

text \<open>
  The inner loop over \<^verbatim>\<open>metric.Points[0].Values\<close>, with \<^verbatim>\<open>maxValue\<close> as accumulator.
  Reading \<^verbatim>\<open>point.Value\<close> through a nil \<^verbatim>\<open>point\<close> panics.
\<close>

fun scanValues :: "Point option list \<Rightarrow> real \<Rightarrow> error + real" where
  "scanValues [] maxValue = Inr maxValue"
| "scanValues (None # rest) maxValue = Inl NilPointerDereference"
| "scanValues (Some point # rest) maxValue =
    (case Value point of
       Some v \<Rightarrow> scanValues rest (if v > maxValue then v else maxValue)
     | None \<Rightarrow> scanValues rest maxValue)"

text \<open>
  One iteration of the outer loop over \<^verbatim>\<open>metricRawData\<close>, on the map \<^verbatim>\<open>result\<close>. The
  guard is evaluated left to right and stops at the first true disjunct; \<^verbatim>\<open>metric\<close> and
  \<^verbatim>\<open>metric.Points[0]\<close> are pointers that the guard reads through.
\<close>

definition processMetric :: "(string \<rightharpoonup> real) \<Rightarrow> MetricData option \<Rightarrow> error + (string \<rightharpoonup> real)" where
  "processMetric result metric =
    (case metric of
       None \<Rightarrow> Inl NilPointerDereference
     | Some m \<Rightarrow>
        (case MetricName m of
           None \<Rightarrow> Inr result
         | Some name \<Rightarrow>
            (case Points m of
               [] \<Rightarrow> Inr result
             | None # _ \<Rightarrow> Inl NilPointerDereference
             | Some p0 # _ \<Rightarrow>
                if Values p0 = [] then Inr result
                else (case scanValues (Values p0) 0 of
                        Inl e \<Rightarrow> Inl e
                      | Inr maxValue \<Rightarrow> Inr (result(name \<mapsto> maxValue))))))"

fun processData :: "MetricData option list \<Rightarrow> (string \<rightharpoonup> real) \<Rightarrow> error + (string \<rightharpoonup> real)" where
  "processData [] result = Inr result"
| "processData (metric # rest) result =
    (case processMetric result metric of
       Inl e \<Rightarrow> Inl e
     | Inr result' \<Rightarrow> processData rest result')"

text \<open>The map literal that \<^verbatim>\<open>result\<close> starts from.\<close>

definition result0 :: "string \<rightharpoonup> real" where
  "result0 = [cpuMetric \<mapsto> 0, memMetric \<mapsto> 0]"

text \<open>Reading a Go map: the zero value when the key is absent.\<close>

definition mapIndex :: "(string \<rightharpoonup> real) \<Rightarrow> string \<Rightarrow> real" where
  "mapIndex result k = (case result k of Some v \<Rightarrow> v | None \<Rightarrow> 0)"

text \<open>
  The function returns what it logged and either its two values or the failure that
  ended the process. \<open>config\<close> and \<open>dbg\<close> are the globals \<^verbatim>\<open>config\<close> and \<^verbatim>\<open>debug\<close>.
\<close>

definition getDeploymentMetrics ::
  "('t, 'k, 'c) world \<Rightarrow> Config \<Rightarrow> bool \<Rightarrow> string \<Rightarrow> string \<Rightarrow> string \<Rightarrow> log \<times> (error + real \<times> real)" where
  "getDeploymentMetrics w config dbg deploymentName startTime endTime =
    (let started = [(INFO, ''start collect '' @ Namespace config @ ''/'' @ deploymentName @ '' metrics.'')];
         client = newClient config;
         request = buildRequest config deploymentName startTime endTime
     in case DescribeStatisticData w client request of
          TencentCloudSDKError err \<Rightarrow>
            (started @ [(WARNING, ''An API error has returned: '' @ err)], Inr (0, 0))
        | OtherError err \<Rightarrow> (started, Inl (Fatal err))
        | NoError response \<Rightarrow>
            (let logged = started @
                   (if dbg
                    then [(INFO, ''collect '' @ Namespace config @ ''/'' @ deploymentName @
                                 '' raw metrics '' @ ToJsonString w response @ ''.'')]
                    else [])
             in case Response response of
                  None \<Rightarrow> (logged, Inl NilPointerDereference)
                | Some params \<Rightarrow>
                    (case processData (Data params) result0 of
                       Inl e \<Rightarrow> (logged, Inl e)
                     | Inr result \<Rightarrow>
                         (logged, Inr (mapIndex result cpuMetric, mapIndex result memMetric)))))"

subsection \<open>main\<close>

definition RFC3339 :: string where
  "RFC3339 = ''2006-01-02T15:04:05Z07:00''"

text \<open>The two \<^verbatim>\<open>time.Parse\<close> calls of main, start first.\<close>

definition parseTimeWindow :: "('t, 'k, 'c) world \<Rightarrow> flags \<Rightarrow> error + 't \<times> 't" where
  "parseTimeWindow w fl =
    (case timeParse w RFC3339 (startTimeStr fl) of
       Inl err \<Rightarrow> Inl (Fatal (''Invalid start time: '' @ err @ [CHR 0x0A]))
     | Inr startTime \<Rightarrow>
        (case timeParse w RFC3339 (endTimeStr fl) of
           Inl err \<Rightarrow> Inl (Fatal (''Invalid end time: '' @ err @ [CHR 0x0A]))
         | Inr endTime \<Rightarrow> Inr (startTime, endTime)))"

definition csvHeader :: "string list" where
  "csvHeader = [''Namespace'', ''Deployment'', ''CPU Usage Max (percent)'', ''Memory Usage Max (percent)'']"

text \<open>
  The loop over \<^verbatim>\<open>deployments.Items\<close>: the records handed to the CSV writer, in order,
  unless a call of \<open>getDeploymentMetrics\<close> ends the process.
\<close>

fun writeRows ::
  "('t, 'k, 'c) world \<Rightarrow> Config \<Rightarrow> bool \<Rightarrow> string \<Rightarrow> string \<Rightarrow> string list \<Rightarrow> log \<times> (error + string list list)" where
  "writeRows w config dbg startTime endTime [] = ([], Inr [])"
| "writeRows w config dbg startTime endTime (name # items) =
    (case getDeploymentMetrics w config dbg name startTime endTime of
       (l, Inl e) \<Rightarrow> (l, Inl e)
     | (l, Inr (cpuPeakUsage, memPeakUsage)) \<Rightarrow>
        (case writeRows w config dbg startTime endTime items of
           (l', Inl e) \<Rightarrow> (l @ l', Inl e)
         | (l', Inr rows) \<Rightarrow>
             (l @ l',
              Inr ([Namespace config, name, sprintf_f w cpuPeakUsage, sprintf_f w memPeakUsage] # rows))))"

text \<open>
  main, from after \<^verbatim>\<open>flag.Parse()\<close>. A run that reaches the end of main has created the
  file and, through the deferred \<^verbatim>\<open>writer.Flush()\<close>, handed it the header and the rows:
  the result is the file's name and its records. The errors that \<^verbatim>\<open>writer.Write\<close> and
  \<^verbatim>\<open>Flush\<close> may meet are ignored by the program and are not part of the model.
\<close>

definition main :: "('t, 'k, 'c) world \<Rightarrow> flags \<Rightarrow> log \<times> (error + string \<times> string list list)" where
  "main w fl =
    (case ReadFile w (configPath fl) of
       Inl err \<Rightarrow> ([], Inl (Fatal (''Error reading config file: '' @ err)))
     | Inr data \<Rightarrow>
    (case yamlUnmarshal w data of
       Inl err \<Rightarrow> ([], Inl (Fatal (''Error unmarshaling YAML: '' @ err)))
     | Inr config \<Rightarrow>
    (case validate config of
       Some err \<Rightarrow> ([], Inl (Fatal (''Validation error: '' @ err)))
     | None \<Rightarrow>
    (case parseTimeWindow w fl of
       Inl e \<Rightarrow> ([], Inl e)
     | Inr (startTime, endTime) \<Rightarrow>
    (case BuildConfigFromFlags w '''' (kubeconfig fl) of
       Inl err \<Rightarrow> ([], Inl (Fatal err))
     | Inr kc \<Rightarrow>
    (case NewForConfig w kc of
       Inl err \<Rightarrow> ([], Inl (Fatal err))
     | Inr clientset \<Rightarrow>
    (case listDeployments w clientset (Namespace config) of
       Inl err \<Rightarrow> ([], Inl (Fatal err))
     | Inr items \<Rightarrow>
    (let filename = ''deployments_metrics_'' @ Namespace config @ ''_'' @
                    timeFormat w startTime ''20060102T150405'' @ ''_to_'' @
                    timeFormat w endTime ''20060102T150405'' @ ''.csv''
     in case osCreate w filename of
          Some err \<Rightarrow> ([], Inl (Fatal err))
        | None \<Rightarrow>
           (case writeRows w config (debug fl) (timeFormat w startTime RFC3339)
                   (timeFormat w endTime RFC3339) items of
              (l, Inl e) \<Rightarrow> (l, Inl e)
            | (l, Inr rows) \<Rightarrow> (l, Inr (filename, csvHeader # rows)))))))))))"

section \<open>Notions used to state the properties\<close>

text \<open>
  The values of a series that are present: the points whose \<^verbatim>\<open>Value\<close> is not null, in
  order. \<open>maxSeen\<close> is the largest of them, and 0 for a series that has none.
\<close>

fun presentValues :: "Point option list \<Rightarrow> real list" where
  "presentValues [] = []"
| "presentValues (None # rest) = presentValues rest"
| "presentValues (Some point # rest) =
    (case Value point of Some v \<Rightarrow> v # presentValues rest | None \<Rightarrow> presentValues rest)"

definition maxSeen :: "Point option list \<Rightarrow> real" where
  "maxSeen vs = (if presentValues vs = [] then 0 else Max (set (presentValues vs)))"

text \<open>The name of an entry of \<^verbatim>\<open>Data\<close>, when it has one, and the names of a response.\<close>

definition nameOf :: "MetricData option \<Rightarrow> string option" where
  "nameOf e = (case e of None \<Rightarrow> None | Some m \<Rightarrow> MetricName m)"

definition entryNames :: "MetricData option list \<Rightarrow> string list" where
  "entryNames xs = List.map_filter nameOf xs"

text \<open>
  An entry without data points, as the guard of the loop tests it: no series, or a first
  series without values.
\<close>

definition noPoints :: "MetricData \<Rightarrow> bool" where
  "noPoints m \<longleftrightarrow> (case Points m of [] \<Rightarrow> True | None # _ \<Rightarrow> False | Some p0 # _ \<Rightarrow> Values p0 = [])"

text \<open>
  The answer of the monitoring API that carries the entries \<open>xs\<close>, and an entry with a
  name and one series of values (\<open>None\<close> for a null value).
\<close>

definition dataResponse :: "MetricData option list \<Rightarrow> api_result" where
  "dataResponse xs = NoError \<lparr>Response = Some \<lparr>Data = xs\<rparr>\<rparr>"

definition series :: "string \<Rightarrow> real option list \<Rightarrow> MetricData option" where
  "series name vs =
    Some \<lparr>MetricName = Some name, Points = [Some \<lparr>Values = map (\<lambda>v. Some \<lparr>Value = v\<rparr>) vs\<rparr>]\<rparr>"

section \<open>Notions used in the proofs\<close>

text \<open>
  What one entry does to \<^verbatim>\<open>result\<close>, whatever the map holds: it panics, leaves the map
  as it is, or assigns one key.
\<close>

definition entryUpdate :: "MetricData option \<Rightarrow> error + (string \<times> real) option" where
  "entryUpdate e =
    (case e of
       None \<Rightarrow> Inl NilPointerDereference
     | Some m \<Rightarrow>
        (case MetricName m of
           None \<Rightarrow> Inr None
         | Some name \<Rightarrow>
            (case Points m of
               [] \<Rightarrow> Inr None
             | None # _ \<Rightarrow> Inl NilPointerDereference
             | Some p0 # _ \<Rightarrow>
                if Values p0 = [] then Inr None
                else (case scanValues (Values p0) 0 of
                        Inl err \<Rightarrow> Inl err
                      | Inr maxValue \<Rightarrow> Inr (Some (name, maxValue))))))"

definition updates :: "MetricData option list \<Rightarrow> (string \<times> real) list" where
  "updates xs = List.map_filter (\<lambda>e. case entryUpdate e of Inl _ \<Rightarrow> None | Inr u \<Rightarrow> u) xs"

section \<open>Sample environments\<close>

text \<open>
  A concrete environment for the runs that the properties are tried on: a configuration
  file that decodes to \<open>sampleConfig\<close>, a clock that knows the two default values of the
  \<^verbatim>\<open>-start\<close> and \<^verbatim>\<open>-end\<close> flags (a time is its number of seconds since 1970), a cluster
  that lists \<open>items\<close>, and a monitoring API that answers the query for workload \<open>name\<close>
  with \<open>table name\<close>. The tables of \<open>sampleFormat\<close> and \<open>sampleSprintf\<close> hold the entries
  that these runs need.
\<close>

definition sampleConfig :: Config where
  "sampleConfig =
    \<lparr>Region = ''ap-guangzhou'', ClusterID = ''cls-1'', Namespace = ''ns'',
     SecretID = ''id'', SecretKey = ''key''\<rparr>"

definition sampleFlags :: flags where
  "sampleFlags =
    \<lparr>kubeconfig = ''/home/u/.kube/config'', configPath = ''/home/u/.metrics/config.yaml'',
     startTimeStr = ''2024-07-18T00:00:00+08:00'', endTimeStr = ''2024-07-18T13:00:00+08:00'',
     debug = False\<rparr>"

definition sampleParse :: "string \<Rightarrow> string \<Rightarrow> string + nat" where
  "sampleParse layout s =
    (if layout = RFC3339 \<and> s = ''2024-07-18T00:00:00+08:00'' then Inr 1721232000
     else if layout = RFC3339 \<and> s = ''2024-07-18T13:00:00+08:00'' then Inr 1721278800
     else Inl (''cannot parse '' @ s))"

definition sampleFormat :: "nat \<Rightarrow> string \<Rightarrow> string" where
  "sampleFormat t layout =
    (if layout = RFC3339 then
       (if t = 1721232000 then ''2024-07-18T00:00:00+08:00'' else ''2024-07-18T13:00:00+08:00'')
     else
       (if t = 1721232000 then ''20240718T000000'' else ''20240718T130000''))"

definition sampleSprintf :: "real \<Rightarrow> string" where
  "sampleSprintf x =
    (if x = 0 then ''0.000000'' else if x = 0.4 then ''0.400000''
     else if x = 0.9 then ''0.900000'' else ''1.000000'')"

definition sampleApi :: "(string \<Rightarrow> api_result) \<Rightarrow> Client \<Rightarrow> DescribeStatisticDataRequest \<Rightarrow> api_result" where
  "sampleApi table client request =
    (case map CondValue (Conditions request) of
       [_, _, _, [name]] \<Rightarrow> table name
     | _ \<Rightarrow> OtherError ''unexpected query'')"

definition sampleWorld :: "(string \<Rightarrow> api_result) \<Rightarrow> string list \<Rightarrow> (nat, unit, unit) world" where
  "sampleWorld table items =
    \<lparr>ReadFile = (\<lambda>path. Inr ''region: ap-guangzhou''),
     yamlUnmarshal = (\<lambda>data. Inr sampleConfig),
     timeParse = sampleParse,
     timeFormat = sampleFormat,
     BuildConfigFromFlags = (\<lambda>masterUrl path. Inr ()),
     NewForConfig = (\<lambda>kc. Inr ()),
     listDeployments = (\<lambda>clientset ns. Inr items),
     osCreate = (\<lambda>filename. None),
     DescribeStatisticData = sampleApi table,
     ToJsonString = (\<lambda>response. ''{}''),
     sprintf_f = sampleSprintf\<rparr>"

section \<open>Lemmas about the program\<close>

subsection \<open>The scan of a series\<close>

text \<open>
  The scan fails exactly when the series holds a nil point; otherwise it returns the
  greatest of the accumulator it started from and the values that are present.
\<close>

lemma scanValues_Inl: "scanValues vs a = Inl e \<Longrightarrow> e = NilPointerDereference"
  by (induction vs a rule: scanValues.induct) (auto split: option.splits)

lemma scanValues_Inl_iff: "(\<exists>e. scanValues vs a = Inl e) \<longleftrightarrow> None \<in> set vs"
  by (induction vs a rule: scanValues.induct) (auto split: option.splits)

lemma scanValues_ge: "scanValues vs a = Inr v \<Longrightarrow> a \<le> v"
  by (induction vs a arbitrary: v rule: scanValues.induct)
     (fastforce split: option.splits if_splits)+

lemma scanValues_Max:
  "None \<notin> set vs \<Longrightarrow> scanValues vs a = Inr (Max (set (a # presentValues vs)))"
proof (induction vs a rule: scanValues.induct)
  case (1 maxValue)
  then show ?case by simp
next
  case (2 rest maxValue)
  then show ?case by simp
next
  case (3 point rest maxValue)
  show ?case
  proof (cases "Value point")
    case None
    with 3 show ?thesis by simp
  next
    case (Some v)
    have fin: "finite (set (presentValues rest))" by simp
    from 3 Some have "scanValues (Some point # rest) maxValue
        = Inr (Max (insert (if maxValue < v then v else maxValue) (set (presentValues rest))))"
      by simp
    also have "Max (insert (if maxValue < v then v else maxValue) (set (presentValues rest)))
        = Max (insert maxValue (insert v (set (presentValues rest))))"
      by (cases "set (presentValues rest) = {}") (auto simp: max_def)
    finally show ?thesis using Some by simp
  qed
qed

subsection \<open>The loop over the entries\<close>

text \<open>
  An iteration is the update of its entry, and the loop is the updates of the entries
  applied in order, unless one of them panics.
\<close>

lemma processMetric_entryUpdate:
  "processMetric r e =
    (case entryUpdate e of
       Inl err \<Rightarrow> Inl err
     | Inr None \<Rightarrow> Inr r
     | Inr (Some (n, v)) \<Rightarrow> Inr (r(n \<mapsto> v)))"
  by (simp add: processMetric_def entryUpdate_def split: option.splits list.splits sum.splits)

lemma entryUpdate_Inl: "entryUpdate e = Inl err \<Longrightarrow> err = NilPointerDereference"
  by (auto simp: entryUpdate_def split: option.splits list.splits sum.splits if_splits dest: scanValues_Inl)

lemma entryUpdate_name: "entryUpdate e = Inr (Some (n, v)) \<Longrightarrow> nameOf e = Some n"
  by (auto simp: entryUpdate_def nameOf_def split: option.splits list.splits sum.splits if_splits)

lemma entryUpdate_nonneg: "entryUpdate e = Inr (Some (n, v)) \<Longrightarrow> 0 \<le> v"
  by (auto simp: entryUpdate_def split: option.splits list.splits sum.splits if_splits dest: scanValues_ge)

lemma processData_append:
  "processData (xs @ ys) r =
    (case processData xs r of Inl e \<Rightarrow> Inl e | Inr r' \<Rightarrow> processData ys r')"
  by (induction xs arbitrary: r) (auto split: sum.splits)

lemma processData_Inl: "processData xs r = Inl e \<Longrightarrow> e = NilPointerDereference"
  by (induction xs arbitrary: r)
     (auto simp: processMetric_entryUpdate split: sum.splits option.splits dest: entryUpdate_Inl)


lemma updates_Cons:
  "updates (e # xs) =
    (case entryUpdate e of Inr (Some u) \<Rightarrow> u # updates xs | _ \<Rightarrow> updates xs)"
  by (simp add: updates_def List.map_filter_simps split: sum.splits option.splits)

lemma updates_Nil: "updates [] = []"
  by (simp add: updates_def List.map_filter_simps)

lemma processData_faults:
  "\<exists>e\<in>set xs. isl (entryUpdate e) \<Longrightarrow> processData xs r = Inl NilPointerDereference"
proof (induction xs arbitrary: r)
  case Nil
  then show ?case by simp
next
  case (Cons x xs)
  show ?case
  proof (cases "entryUpdate x")
    case (Inl err)
    then show ?thesis
      using entryUpdate_Inl [OF Inl] by (simp add: processMetric_entryUpdate)
  next
    case (Inr u)
    with Cons.prems have "\<exists>e\<in>set xs. isl (entryUpdate e)" by auto
    then show ?thesis
      using Inr Cons.IH by (simp add: processMetric_entryUpdate split: option.splits)
  qed
qed

lemma processData_updates:
  "\<forall>e\<in>set xs. \<not> isl (entryUpdate e) \<Longrightarrow>
     processData xs r = Inr (r ++ map_of (rev (updates xs)))"
proof (induction xs arbitrary: r)
  case Nil
  then show ?case by (simp add: updates_Nil)
next
  case (Cons x xs)
  then obtain u where u: "entryUpdate x = Inr u"
    by (cases "entryUpdate x") auto
  show ?case
  proof (cases u)
    case None
    with u Cons show ?thesis
      by (simp add: processMetric_entryUpdate updates_Cons)
  next
    case (Some nv)
    obtain n v where nv: "nv = (n, v)" by (cases nv)
    have "r(n \<mapsto> v) ++ map_of (rev (updates xs)) = r ++ (map_of (rev (updates xs) @ [(n, v)]))"
      by (rule ext) (simp add: map_add_def split: option.splits)
    with u Some nv Cons show ?thesis
      by (simp add: processMetric_entryUpdate updates_Cons)
  qed
qed

subsection \<open>The order of the entries\<close>

lemma entryNames_Cons:
  "entryNames (e # xs) = (case nameOf e of None \<Rightarrow> entryNames xs | Some n \<Rightarrow> n # entryNames xs)"
  by (simp add: entryNames_def List.map_filter_simps split: option.splits)

lemma updates_names: "(n, v) \<in> set (updates xs) \<Longrightarrow> n \<in> set (entryNames xs)"
proof (induction xs)
  case Nil
  then show ?case by (simp add: updates_Nil)
next
  case (Cons x xs)
  then show ?case
    by (auto simp: updates_Cons entryNames_Cons
             split: sum.splits option.splits dest: entryUpdate_name)
qed

lemma distinct_updates: "distinct (entryNames xs) \<Longrightarrow> distinct (map fst (updates xs))"
proof (induction xs)
  case Nil
  then show ?case by (simp add: updates_Nil)
next
  case (Cons x xs)
  show ?case
  proof (cases "entryUpdate x")
    case (Inl err)
    with Cons show ?thesis
      by (simp add: updates_Cons entryNames_Cons split: option.splits)
  next
    case (Inr u)
    show ?thesis
    proof (cases u)
      case None
      with Inr Cons show ?thesis
        by (simp add: updates_Cons entryNames_Cons split: option.splits)
    next
      case (Some nv)
      obtain n v where nv: "nv = (n, v)" by (cases nv)
      from Inr Some nv have name: "nameOf x = Some n" by (auto dest: entryUpdate_name)
      with Cons.prems have "n \<notin> set (entryNames xs)" and "distinct (entryNames xs)"
        by (simp_all add: entryNames_Cons)
      then have "n \<notin> fst ` set (updates xs)" and "distinct (map fst (updates xs))"
        using Cons.IH by (auto dest: updates_names)
      with Inr Some nv show ?thesis
        by (simp add: updates_Cons)
    qed
  qed
qed

lemma mset_map_filter:
  "mset xs = mset ys \<Longrightarrow> mset (List.map_filter f xs) = mset (List.map_filter f ys)"
  by (simp add: List.map_filter_def)

lemma mset_updates: "mset xs = mset ys \<Longrightarrow> mset (updates xs) = mset (updates ys)"
  unfolding updates_def by (rule mset_map_filter)

lemma processData_permute:
  assumes "mset xs = mset ys" and "distinct (entryNames xs)"
  shows "processData xs r = processData ys r"
proof (cases "\<exists>e\<in>set xs. isl (entryUpdate e)")
  case True
  moreover from assms(1) have "set xs = set ys" by (rule mset_eq_setD)
  ultimately have "\<exists>e\<in>set ys. isl (entryUpdate e)" by simp
  from processData_faults [OF True] processData_faults [OF this] show ?thesis by simp
next
  case False
  from assms(1) have sets: "set xs = set ys" by (rule mset_eq_setD)
  with False have no: "\<forall>e\<in>set xs. \<not> isl (entryUpdate e)" "\<forall>e\<in>set ys. \<not> isl (entryUpdate e)"
    by simp_all
  have dx: "distinct (map fst (updates xs))"
    using assms(2) by (rule distinct_updates)
  have "mset (map fst (updates xs)) = mset (map fst (updates ys))"
    using mset_updates [OF assms(1)] by simp
  from mset_eq_imp_distinct_iff [OF this] dx have dy: "distinct (map fst (updates ys))"
    by simp
  have s: "set (rev (updates xs)) = set (rev (updates ys))"
    using mset_eq_setD [OF mset_updates [OF assms(1)]] by simp
  have d: "distinct (map fst (rev (updates xs)))" "distinct (map fst (rev (updates ys)))"
    using dx dy by (simp_all flip: rev_map)
  have "map_of (rev (updates xs)) = map_of (rev (updates ys))"
    using map_of_inject_set [OF d] s by blast
  then show ?thesis
    using processData_updates [OF no(1), of r] processData_updates [OF no(2), of r] by simp
qed


subsection \<open>The keys that an entry leaves alone\<close>

lemma processMetric_keeps:
  "processMetric r e = Inr r' \<Longrightarrow> nameOf e \<noteq> Some n \<Longrightarrow> r' n = r n"
  by (auto simp: processMetric_entryUpdate split: sum.splits option.splits dest: entryUpdate_name)

lemma processData_keeps:
  "processData ys r = Inr r' \<Longrightarrow> \<forall>e\<in>set ys. nameOf e \<noteq> Some n \<Longrightarrow> r' n = r n"
proof (induction ys arbitrary: r)
  case Nil
  then show ?case by simp
next
  case (Cons y ys)
  from Cons.prems(1) obtain r1 where step: "processMetric r y = Inr r1"
    and rest: "processData ys r1 = Inr r'"
    by (auto split: sum.splits)
  from Cons.prems(2) have "nameOf y \<noteq> Some n" and "\<forall>e\<in>set ys. nameOf e \<noteq> Some n"
    by simp_all
  with step rest Cons.IH show ?case
    by (simp add: processMetric_keeps)
qed

lemma processData_drop:
  assumes "\<forall>k\<in>K. r1 k = r2 k" and "processData xs r1 = Inr r1'"
  shows "\<exists>r2'. processData (filter (\<lambda>e. \<forall>n. nameOf e = Some n \<longrightarrow> n \<in> K) xs) r2 = Inr r2'
           \<and> (\<forall>k\<in>K. r1' k = r2' k)"
  using assms
proof (induction xs arbitrary: r1 r2)
  case Nil
  then show ?case by simp
next
  case (Cons x xs)
  from Cons.prems(2) obtain s1 where step: "processMetric r1 x = Inr s1"
    and rest: "processData xs s1 = Inr r1'"
    by (auto split: sum.splits)
  show ?case
  proof (cases "\<forall>n. nameOf x = Some n \<longrightarrow> n \<in> K")
    case True
    from step obtain u where u: "entryUpdate x = Inr u"
      by (auto simp: processMetric_entryUpdate split: sum.splits)
    define s2 where "s2 = (case u of None \<Rightarrow> r2 | Some (n, v) \<Rightarrow> r2(n \<mapsto> v))"
    have step2: "processMetric r2 x = Inr s2"
      using u by (simp add: processMetric_entryUpdate s2_def split: option.splits)
    have "s1 = (case u of None \<Rightarrow> r1 | Some (n, v) \<Rightarrow> r1(n \<mapsto> v))"
      using u step by (auto simp: processMetric_entryUpdate split: option.splits)
    with Cons.prems(1) have "\<forall>k\<in>K. s1 k = s2 k"
      by (auto simp: s2_def split: option.splits)
    from Cons.IH [OF this rest] True step2 show ?thesis by simp
  next
    case False
    then obtain n where n: "nameOf x = Some n" "n \<notin> K" by auto
    have "\<forall>k\<in>K. s1 k = r2 k"
    proof
      fix k assume k: "k \<in> K"
      with n have "nameOf x \<noteq> Some k" by auto
      from processMetric_keeps [OF step this] Cons.prems(1) k show "s1 k = r2 k" by simp
    qed
    from Cons.IH [OF this rest] False show ?thesis by auto
  qed
qed

subsection \<open>The values of the result\<close>

lemma processData_nonneg:
  "processData xs r = Inr r' \<Longrightarrow> \<forall>k v. r k = Some v \<longrightarrow> 0 \<le> v \<Longrightarrow> r' k = Some v \<Longrightarrow> 0 \<le> v"
proof (induction xs arbitrary: r)
  case Nil
  then show ?case by simp
next
  case (Cons x xs)
  from Cons.prems(1) obtain s where step: "processMetric r x = Inr s"
    and rest: "processData xs s = Inr r'"
    by (auto split: sum.splits)
  have "\<forall>k v. s k = Some v \<longrightarrow> 0 \<le> v"
    using step Cons.prems(2)
    by (auto simp: processMetric_entryUpdate split: sum.splits option.splits if_splits
             dest: entryUpdate_nonneg)
  from Cons.IH [OF rest this Cons.prems(3)] show ?case .
qed

subsection \<open>The function on a response\<close>

lemma getDeploymentMetrics_NoError:
  assumes "DescribeStatisticData w (newClient config) (buildRequest config name s e)
             = dataResponse xs"
  shows "snd (getDeploymentMetrics w config dbg name s e) =
           (case processData xs result0 of
              Inl err \<Rightarrow> Inl err
            | Inr r \<Rightarrow> Inr (mapIndex r cpuMetric, mapIndex r memMetric))"
  using assms by (simp add: getDeploymentMetrics_def dataResponse_def Let_def split: sum.splits)

lemma mapIndex_result0: "mapIndex result0 cpuMetric = 0" "mapIndex result0 memMetric = 0"
  by (simp_all add: mapIndex_def result0_def)

lemma getDeploymentMetrics_cong:
  assumes "DescribeStatisticData w (newClient config) (buildRequest config name s e) =
           DescribeStatisticData w' (newClient config) (buildRequest config name s e)"
    and "ToJsonString w = ToJsonString w'"
  shows "getDeploymentMetrics w config dbg name s e = getDeploymentMetrics w' config dbg name s e"
  unfolding getDeploymentMetrics_def Let_def assms by (rule refl)

lemma mapIndex_nonneg: "\<forall>k v. r k = Some v \<longrightarrow> 0 \<le> v \<Longrightarrow> 0 \<le> mapIndex r k"
  by (simp add: mapIndex_def split: option.splits)

lemma result0_nonneg: "result0 k = Some v \<Longrightarrow> 0 \<le> v"
  by (simp add: result0_def split: if_splits)

lemma getDeploymentMetrics_Inr:
  assumes "snd (getDeploymentMetrics w config dbg name s e) = Inr (cpu, mem)"
  shows "(cpu = 0 \<and> mem = 0) \<or>
         (\<exists>xs r. DescribeStatisticData w (newClient config) (buildRequest config name s e) = dataResponse xs
            \<and> processData xs result0 = Inr r
            \<and> cpu = mapIndex r cpuMetric \<and> mem = mapIndex r memMetric)"
proof (cases "DescribeStatisticData w (newClient config) (buildRequest config name s e)")
  case (TencentCloudSDKError err)
  with assms show ?thesis by (simp add: getDeploymentMetrics_def)
next
  case (OtherError err)
  with assms show ?thesis by (simp add: getDeploymentMetrics_def)
next
  case (NoError response)
  with assms obtain params where params: "Response response = Some params"
    by (cases "Response response") (auto simp: getDeploymentMetrics_def Let_def)
  then have "response = \<lparr>Response = Some \<lparr>Data = Data params\<rparr>\<rparr>"
    by (cases response, cases params) simp
  with NoError have api: "DescribeStatisticData w (newClient config) (buildRequest config name s e)
      = dataResponse (Data params)"
    by (simp add: dataResponse_def)
  from assms show ?thesis
    unfolding getDeploymentMetrics_NoError [OF api] api
    by (auto split: sum.splits)
qed

subsection \<open>Entries with and without data points\<close>

lemma processMetric_skip:
  "MetricName m = None \<or> noPoints m \<Longrightarrow> processMetric r (Some m) = Inr r"
  by (auto simp: processMetric_def noPoints_def split: option.splits list.splits)

lemma processMetric_data:
  assumes "MetricName m = Some n" and "\<not> noPoints m" and "processMetric r (Some m) = Inr r'"
  shows "\<exists>p ps v. Points m = Some p # ps \<and> Values p \<noteq> [] \<and> scanValues (Values p) 0 = Inr v
           \<and> r' = r(n \<mapsto> v)"
  using assms
  by (auto simp: processMetric_def noPoints_def split: option.splits list.splits sum.splits if_splits)

lemma processData_keeps_noPoints:
  "processData ys r = Inr r' \<Longrightarrow>
   \<forall>m. Some m \<in> set ys \<and> MetricName m = Some n \<longrightarrow> noPoints m \<Longrightarrow> r' n = r n"
proof (induction ys arbitrary: r)
  case Nil
  then show ?case by simp
next
  case (Cons y ys)
  from Cons.prems(1) obtain r1 where step: "processMetric r y = Inr r1"
    and rest: "processData ys r1 = Inr r'"
    by (auto split: sum.splits)
  have "r1 n = r n"
  proof (cases "nameOf y = Some n")
    case True
    then obtain m where m: "y = Some m" "MetricName m = Some n"
      by (auto simp: nameOf_def split: option.splits)
    with Cons.prems(2) have "noPoints m" by simp
    with step m show ?thesis by (simp add: processMetric_skip)
  next
    case False
    from processMetric_keeps [OF step False] show ?thesis .
  qed
  moreover have "r' n = r1 n"
    using Cons.IH [OF rest] Cons.prems(2) by simp
  ultimately show ?case by simp
qed

lemma last_entry_value:
  assumes run: "processData (xs @ Some m # ys) r0 = Inr r"
    and name: "MetricName m = Some n" and data: "\<not> noPoints m"
    and last: "\<forall>e\<in>set ys. nameOf e \<noteq> Some n"
  shows "\<exists>p ps v. Points m = Some p # ps \<and> Values p \<noteq> [] \<and> scanValues (Values p) 0 = Inr v
           \<and> r n = Some v"
proof -
  from run obtain r1 r2 where "processData xs r0 = Inr r1"
    and step: "processMetric r1 (Some m) = Inr r2" and rest: "processData ys r2 = Inr r"
    by (auto simp: processData_append split: sum.splits)
  from processMetric_data [OF name data step] obtain p ps v
    where p: "Points m = Some p # ps" "Values p \<noteq> []" "scanValues (Values p) 0 = Inr v"
      and r2: "r2 = r1(n \<mapsto> v)"
    by blast
  from processData_keeps [OF rest last] r2 have "r n = Some v" by simp
  with p show ?thesis by blast
qed

lemma Max_insert_nonneg:
  assumes "\<forall>x\<in>set (presentValues ps). 0 \<le> x"
  shows "Max (insert 0 (set (presentValues ps))) = maxSeen ps"
proof (cases "presentValues ps = []")
  case True
  then show ?thesis by (simp add: maxSeen_def)
next
  case False
  then obtain x where x: "x \<in> set (presentValues ps)"
    by (cases "presentValues ps") auto
  with assms have "0 \<le> x" by simp
  also have "x \<le> Max (set (presentValues ps))" using x by simp
  finally show ?thesis using False by (simp add: maxSeen_def max_def)
qed

lemma requested_filter:
  "filter (\<lambda>e. case nameOf e of None \<Rightarrow> True | Some n \<Rightarrow> n = cpuMetric \<or> n = memMetric) xs =
   filter (\<lambda>e. \<forall>n. nameOf e = Some n \<longrightarrow> n \<in> {cpuMetric, memMetric}) xs"
  by (rule filter_cong) (auto split: option.splits)

subsection \<open>The loop of main\<close>

lemma writeRows_Inr:
  "writeRows w config dbg s e items = (l, Inr rows) \<Longrightarrow>
   \<exists>vals. list_all2 (\<lambda>name v. snd (getDeploymentMetrics w config dbg name s e) = Inr v) items vals
     \<and> rows = map2 (\<lambda>name (cpu, mem). [Namespace config, name, sprintf_f w cpu, sprintf_f w mem]) items vals"
proof (induction items arbitrary: l rows)
  case Nil
  then show ?case by simp
next
  case (Cons name items)
  from Cons.prems obtain l1 cpu mem l2 rest
    where call: "getDeploymentMetrics w config dbg name s e = (l1, Inr (cpu, mem))"
      and loop: "writeRows w config dbg s e items = (l2, Inr rest)"
      and rows: "rows = [Namespace config, name, sprintf_f w cpu, sprintf_f w mem] # rest"
    by (auto split: prod.splits sum.splits)
  from Cons.IH [OF loop] obtain vals
    where vals: "list_all2 (\<lambda>name v. snd (getDeploymentMetrics w config dbg name s e) = Inr v) items vals"
      and rest: "rest = map2 (\<lambda>name (cpu, mem). [Namespace config, name, sprintf_f w cpu, sprintf_f w mem]) items vals"
    by blast
  from call vals have "list_all2 (\<lambda>name v. snd (getDeploymentMetrics w config dbg name s e) = Inr v)
      (name # items) ((cpu, mem) # vals)"
    by simp
  moreover from rows rest
  have "rows = map2 (\<lambda>name (cpu, mem). [Namespace config, name, sprintf_f w cpu, sprintf_f w mem])
      (name # items) ((cpu, mem) # vals)"
    by simp
  ultimately show ?case by blast
qed

lemma writeRows_complete:
  "list_all2 (\<lambda>name v. snd (getDeploymentMetrics w config dbg name s e) = Inr v) items vals \<Longrightarrow>
   snd (writeRows w config dbg s e items) =
     Inr (map2 (\<lambda>name (cpu, mem). [Namespace config, name, sprintf_f w cpu, sprintf_f w mem]) items vals)"
proof (induction items vals rule: list_all2_induct)
  case Nil
  then show ?case by simp
next
  case (Cons name items v vals)
  obtain cpu mem where v: "v = (cpu, mem)" by (cases v)
  obtain l1 where call: "getDeploymentMetrics w config dbg name s e = (l1, Inr (cpu, mem))"
    using Cons.hyps(1) v by (cases "getDeploymentMetrics w config dbg name s e") simp
  obtain l2 where loop: "writeRows w config dbg s e items =
      (l2, Inr (map2 (\<lambda>name (cpu, mem). [Namespace config, name, sprintf_f w cpu, sprintf_f w mem]) items vals))"
    using Cons.IH by (cases "writeRows w config dbg s e items") simp
  from call loop v show ?case by simp
qed

subsection \<open>Runs in a sample environment\<close>

text \<open>The definitions that a run in a sample environment unfolds.\<close>

lemmas sample_run =
  getDeploymentMetrics_def sampleWorld_def sampleApi_def buildRequest_def newClient_def
  dataResponse_def series_def processMetric_def result0_def mapIndex_def
  cpuMetric_def memMetric_def sampleConfig_def

lemmas sample_main =
  main_def validate_def parseTimeWindow_def sampleFlags_def sampleParse_def sampleFormat_def
  sampleSprintf_def RFC3339_def csvHeader_def

section \<open>The properties\<close>

subsection \<open>Configuration validation\<close>

text \<open>
  C3. \<open>validate\<close> returns an error if and only if one of the five required fields is the
  empty string. The fields are tested in the order region, clusterID, namespace, secretID,
  secretKey, and the error names the first of them that is empty; a configuration whose
  five fields are all non-empty is accepted with the nil error.
\<close>

theorem validate_required_fields:
  "(validate c = None \<longleftrightarrow>
      Region c \<noteq> '''' \<and> ClusterID c \<noteq> '''' \<and> Namespace c \<noteq> '''' \<and> SecretID c \<noteq> '''' \<and> SecretKey c \<noteq> '''')
   \<and> (Region c = '''' \<longrightarrow> validate c = Some ''region is required'')
   \<and> (Region c \<noteq> '''' \<and> ClusterID c = '''' \<longrightarrow> validate c = Some ''clusterID is required'')
   \<and> (Region c \<noteq> '''' \<and> ClusterID c \<noteq> '''' \<and> Namespace c = '''' \<longrightarrow>
        validate c = Some ''namespace is required'')
   \<and> (Region c \<noteq> '''' \<and> ClusterID c \<noteq> '''' \<and> Namespace c \<noteq> '''' \<and> SecretID c = '''' \<longrightarrow>
        validate c = Some ''secretID is required'')
   \<and> (Region c \<noteq> '''' \<and> ClusterID c \<noteq> '''' \<and> Namespace c \<noteq> '''' \<and> SecretID c \<noteq> '''' \<and> SecretKey c = '''' \<longrightarrow>
        validate c = Some ''secretKey is required'')"
  by (simp add: validate_def)

text \<open>
  One configuration with every field set, one for each field left empty, and one with
  two fields empty, where the earlier field is the one reported.
\<close>

theorem validate_required_fields_witness:
  "validate sampleConfig = None
   \<and> validate (sampleConfig\<lparr>Region := ''''\<rparr>) = Some ''region is required''
   \<and> validate (sampleConfig\<lparr>ClusterID := ''''\<rparr>) = Some ''clusterID is required''
   \<and> validate (sampleConfig\<lparr>Namespace := ''''\<rparr>) = Some ''namespace is required''
   \<and> validate (sampleConfig\<lparr>SecretID := ''''\<rparr>) = Some ''secretID is required''
   \<and> validate (sampleConfig\<lparr>SecretKey := ''''\<rparr>) = Some ''secretKey is required''
   \<and> validate (sampleConfig\<lparr>ClusterID := '''', SecretKey := ''''\<rparr>) = Some ''clusterID is required''"
  using validate_required_fields [of sampleConfig]
    validate_required_fields [of "sampleConfig\<lparr>Region := ''''\<rparr>"]
    validate_required_fields [of "sampleConfig\<lparr>ClusterID := ''''\<rparr>"]
    validate_required_fields [of "sampleConfig\<lparr>Namespace := ''''\<rparr>"]
    validate_required_fields [of "sampleConfig\<lparr>SecretID := ''''\<rparr>"]
    validate_required_fields [of "sampleConfig\<lparr>SecretKey := ''''\<rparr>"]
    validate_required_fields [of "sampleConfig\<lparr>ClusterID := '''', SecretKey := ''''\<rparr>"]
  by (simp add: sampleConfig_def)

subsection \<open>The query\<close>

text \<open>
  C6. For every deployment name and time window, the query of \<open>getDeploymentMetrics\<close> has
  exactly four conditions, each with the operator \<^verbatim>\<open>=\<close>: the cluster identifier, the
  namespace, the workload kind fixed to \<^verbatim>\<open>Deployment\<close> and the given workload name. It
  asks for exactly the two metrics of CPU and memory usage against the request, its
  period is 3600 seconds and its window is the one given. This is the only query that the
  function sends: answering any other query with an error changes nothing.
\<close>

theorem buildRequest_query:
  "map (\<lambda>c. (Key c, Operator c, CondValue c)) (Conditions (buildRequest config name s e)) =
     [(''tke_cluster_instance_id'', ''='', [ClusterID config]),
      (''namespace'', ''='', [Namespace config]),
      (''workload_kind'', ''='', [''Deployment'']),
      (''workload_name'', ''='', [name])]
   \<and> MetricNames (buildRequest config name s e) =
       [''K8sWorkloadRateCpuCoreUsedRequestMax'', ''K8sWorkloadRateMemWorkingSetBytesRequestMax'']
   \<and> unat (Period (buildRequest config name s e)) = 3600
   \<and> StartTime (buildRequest config name s e) = s
   \<and> EndTime (buildRequest config name s e) = e
   \<and> getDeploymentMetrics w config dbg name s e =
       getDeploymentMetrics
         (w\<lparr>DescribeStatisticData := \<lambda>client request.
               if request = buildRequest config name s e
               then DescribeStatisticData w client request
               else OtherError ''another query''\<rparr>)
         config dbg name s e"
proof -
  have "getDeploymentMetrics w config dbg name s e =
       getDeploymentMetrics
         (w\<lparr>DescribeStatisticData := \<lambda>client request.
               if request = buildRequest config name s e
               then DescribeStatisticData w client request
               else OtherError ''another query''\<rparr>)
         config dbg name s e"
    by (rule getDeploymentMetrics_cong) simp_all
  then show ?thesis
    by (simp add: buildRequest_def cpuMetric_def memMetric_def)
qed

theorem buildRequest_query_witness:
  "Conditions (buildRequest sampleConfig ''web'' ''2024-07-18T00:00:00+08:00'' ''2024-07-18T13:00:00+08:00'') =
     [\<lparr>Key = ''tke_cluster_instance_id'', Operator = ''='', CondValue = [''cls-1'']\<rparr>,
      \<lparr>Key = ''namespace'', Operator = ''='', CondValue = [''ns'']\<rparr>,
      \<lparr>Key = ''workload_kind'', Operator = ''='', CondValue = [''Deployment'']\<rparr>,
      \<lparr>Key = ''workload_name'', Operator = ''='', CondValue = [''web'']\<rparr>]
   \<and> length (MetricNames (buildRequest sampleConfig ''web'' ''2024-07-18T00:00:00+08:00'' ''2024-07-18T13:00:00+08:00'')) = 2
   \<and> Period (buildRequest sampleConfig ''web'' ''2024-07-18T00:00:00+08:00'' ''2024-07-18T13:00:00+08:00'') = 3600"
  using buildRequest_query [of sampleConfig "''web''" "''2024-07-18T00:00:00+08:00''" "''2024-07-18T13:00:00+08:00''"]
  by (simp add: buildRequest_def sampleConfig_def)

subsection \<open>The time window\<close>

text \<open>
  C8. The two flag values are parsed with the layout RFC3339 and nothing relates them:
  whenever both parse, the pair is accepted as it is, also when the end is not after the
  start. Parsing fails if and only if one of the two strings does not parse, and the
  message says which: the start when the start fails, the end when only the end fails.
\<close>

theorem parseTimeWindow_accepts:
  "(\<forall>t1 t2. timeParse w RFC3339 (startTimeStr fl) = Inr t1 \<and>
             timeParse w RFC3339 (endTimeStr fl) = Inr t2 \<longrightarrow>
             parseTimeWindow w fl = Inr (t1, t2))
   \<and> (isl (parseTimeWindow w fl) \<longleftrightarrow>
        isl (timeParse w RFC3339 (startTimeStr fl)) \<or> isl (timeParse w RFC3339 (endTimeStr fl)))
   \<and> (\<forall>err. timeParse w RFC3339 (startTimeStr fl) = Inl err \<longrightarrow>
          parseTimeWindow w fl = Inl (Fatal (''Invalid start time: '' @ err @ [CHR 0x0A])))
   \<and> (\<forall>t1 err. timeParse w RFC3339 (startTimeStr fl) = Inr t1 \<and>
          timeParse w RFC3339 (endTimeStr fl) = Inl err \<longrightarrow>
          parseTimeWindow w fl = Inl (Fatal (''Invalid end time: '' @ err @ [CHR 0x0A])))"
  by (auto simp: parseTimeWindow_def split: sum.splits)

text \<open>
  A window that ends before it starts and an empty window are accepted; a bad start, a
  bad end, and both bad (the start is reported).
\<close>

theorem parseTimeWindow_accepts_witness:
  "parseTimeWindow (sampleWorld (\<lambda>n. dataResponse []) [])
       (sampleFlags\<lparr>startTimeStr := ''2024-07-18T13:00:00+08:00'', endTimeStr := ''2024-07-18T00:00:00+08:00''\<rparr>)
     = Inr (1721278800, 1721232000)
   \<and> (1721232000 :: nat) < 1721278800
   \<and> parseTimeWindow (sampleWorld (\<lambda>n. dataResponse []) [])
       (sampleFlags\<lparr>startTimeStr := ''2024-07-18T13:00:00+08:00'', endTimeStr := ''2024-07-18T13:00:00+08:00''\<rparr>)
     = Inr (1721278800, 1721278800)
   \<and> parseTimeWindow (sampleWorld (\<lambda>n. dataResponse []) []) (sampleFlags\<lparr>startTimeStr := ''today''\<rparr>)
     = Inl (Fatal (''Invalid start time: cannot parse today'' @ [CHR 0x0A]))
   \<and> parseTimeWindow (sampleWorld (\<lambda>n. dataResponse []) []) (sampleFlags\<lparr>endTimeStr := ''noon''\<rparr>)
     = Inl (Fatal (''Invalid end time: cannot parse noon'' @ [CHR 0x0A]))
   \<and> parseTimeWindow (sampleWorld (\<lambda>n. dataResponse []) [])
       (sampleFlags\<lparr>startTimeStr := ''today'', endTimeStr := ''noon''\<rparr>)
     = Inl (Fatal (''Invalid start time: cannot parse today'' @ [CHR 0x0A]))"
  using parseTimeWindow_accepts [of "sampleWorld (\<lambda>n. dataResponse []) []"
      "sampleFlags\<lparr>startTimeStr := ''2024-07-18T13:00:00+08:00'', endTimeStr := ''2024-07-18T00:00:00+08:00''\<rparr>"]
    parseTimeWindow_accepts [of "sampleWorld (\<lambda>n. dataResponse []) []"
      "sampleFlags\<lparr>startTimeStr := ''2024-07-18T13:00:00+08:00'', endTimeStr := ''2024-07-18T13:00:00+08:00''\<rparr>"]
    parseTimeWindow_accepts [of "sampleWorld (\<lambda>n. dataResponse []) []" "sampleFlags\<lparr>startTimeStr := ''today''\<rparr>"]
    parseTimeWindow_accepts [of "sampleWorld (\<lambda>n. dataResponse []) []" "sampleFlags\<lparr>endTimeStr := ''noon''\<rparr>"]
    parseTimeWindow_accepts [of "sampleWorld (\<lambda>n. dataResponse []) []"
      "sampleFlags\<lparr>startTimeStr := ''today'', endTimeStr := ''noon''\<rparr>"]
  by (simp add: sampleWorld_def sampleFlags_def sampleParse_def RFC3339_def)

subsection \<open>Errors of the monitoring API\<close>

text \<open>
  C2. When the call for one deployment returns an error of type TencentCloudSDKError,
  \<open>getDeploymentMetrics\<close> logs a warning and returns (0.0, 0.0), and the loop of main
  writes that row and goes on with the deployments that follow. When the call returns
  any other error, the process ends at once with that fatal error: nothing is done for
  the deployments that follow.
\<close>

theorem api_error_is_soft:
  "(DescribeStatisticData w (newClient config) (buildRequest config name s e) = TencentCloudSDKError err \<longrightarrow>
      getDeploymentMetrics w config dbg name s e =
        ([(INFO, ''start collect '' @ Namespace config @ ''/'' @ name @ '' metrics.''),
          (WARNING, ''An API error has returned: '' @ err)],
         Inr (0, 0))
      \<and> writeRows w config dbg s e (name # items) =
        (case writeRows w config dbg s e items of
           (l, rest) \<Rightarrow>
             ([(INFO, ''start collect '' @ Namespace config @ ''/'' @ name @ '' metrics.''),
               (WARNING, ''An API error has returned: '' @ err)] @ l,
              case rest of
                Inl e' \<Rightarrow> Inl e'
              | Inr rows \<Rightarrow> Inr ([Namespace config, name, sprintf_f w 0, sprintf_f w 0] # rows))))
   \<and> (DescribeStatisticData w (newClient config) (buildRequest config name s e) = OtherError err \<longrightarrow>
      getDeploymentMetrics w config dbg name s e =
        ([(INFO, ''start collect '' @ Namespace config @ ''/'' @ name @ '' metrics.'')], Inl (Fatal err))
      \<and> writeRows w config dbg s e (name # items) =
        ([(INFO, ''start collect '' @ Namespace config @ ''/'' @ name @ '' metrics.'')], Inl (Fatal err)))"
  by (auto simp: getDeploymentMetrics_def split: prod.splits sum.splits)

text \<open>
  Two runs of main over the deployments a and b: the API error for a gives a row of zeros
  and b is still queried; the other error for a ends the run before b is looked at.
\<close>

theorem api_error_is_soft_witness:
  "main (sampleWorld (\<lambda>n. if n = ''a'' then TencentCloudSDKError ''throttled''
                            else dataResponse [series cpuMetric [Some 0.9]]) [''a'', ''b''])
        sampleFlags =
     ([(INFO, ''start collect ns/a metrics.''),
       (WARNING, ''An API error has returned: throttled''),
       (INFO, ''start collect ns/b metrics.'')],
      Inr (''deployments_metrics_ns_20240718T000000_to_20240718T130000.csv'',
           [[''Namespace'', ''Deployment'', ''CPU Usage Max (percent)'', ''Memory Usage Max (percent)''],
            [''ns'', ''a'', ''0.000000'', ''0.000000''],
            [''ns'', ''b'', ''0.900000'', ''0.000000'']]))
   \<and> main (sampleWorld (\<lambda>n. if n = ''a'' then OtherError ''connection refused''
                            else dataResponse [series cpuMetric [Some 0.9]]) [''a'', ''b''])
        sampleFlags =
     ([(INFO, ''start collect ns/a metrics.'')], Inl (Fatal ''connection refused''))"
  using api_error_is_soft [of
      "sampleWorld (\<lambda>n. if n = ''a'' then TencentCloudSDKError ''throttled''
                          else dataResponse [series cpuMetric [Some 0.9]]) [''a'', ''b'']"
      sampleConfig "''a''" "''2024-07-18T00:00:00+08:00''" "''2024-07-18T13:00:00+08:00''"
      "''throttled''" False "[''b'']"]
    api_error_is_soft [of
      "sampleWorld (\<lambda>n. if n = ''a'' then OtherError ''connection refused''
                          else dataResponse [series cpuMetric [Some 0.9]]) [''a'', ''b'']"
      sampleConfig "''a''" "''2024-07-18T00:00:00+08:00''" "''2024-07-18T13:00:00+08:00''"
      "''connection refused''" False "[''b'']"]
  by (simp add: sample_run sample_main)

subsection \<open>The returned values are not negative\<close>

text \<open>
  C9. Both values that \<open>getDeploymentMetrics\<close> returns are greater than or equal to 0,
  whatever the response: the accumulator of the scan starts at 0, so a series whose
  values are all negative is reduced to 0 and not to the largest of its values.
\<close>

theorem values_never_negative:
  "(snd (getDeploymentMetrics w config dbg name s e) = Inr (cpu, mem) \<longrightarrow> 0 \<le> cpu \<and> 0 \<le> mem)
   \<and> (None \<notin> set vs \<and> (\<forall>v\<in>set (presentValues vs). v < 0) \<longrightarrow> scanValues vs 0 = Inr 0)"
proof (intro conjI impI)
  assume ret: "snd (getDeploymentMetrics w config dbg name s e) = Inr (cpu, mem)"
  from getDeploymentMetrics_Inr [OF ret] show "0 \<le> cpu"
  proof
    assume "cpu = 0 \<and> mem = 0" then show ?thesis by simp
  next
    assume "\<exists>xs r. DescribeStatisticData w (newClient config) (buildRequest config name s e) = dataResponse xs
            \<and> processData xs result0 = Inr r \<and> cpu = mapIndex r cpuMetric \<and> mem = mapIndex r memMetric"
    then obtain xs r where r: "processData xs result0 = Inr r" and c: "cpu = mapIndex r cpuMetric"
      by blast
    have "\<forall>k v. r k = Some v \<longrightarrow> 0 \<le> v"
      using processData_nonneg [OF r] result0_nonneg by blast
    with c show ?thesis by (simp add: mapIndex_nonneg)
  qed
  from getDeploymentMetrics_Inr [OF ret] show "0 \<le> mem"
  proof
    assume "cpu = 0 \<and> mem = 0" then show ?thesis by simp
  next
    assume "\<exists>xs r. DescribeStatisticData w (newClient config) (buildRequest config name s e) = dataResponse xs
            \<and> processData xs result0 = Inr r \<and> cpu = mapIndex r cpuMetric \<and> mem = mapIndex r memMetric"
    then obtain xs r where r: "processData xs result0 = Inr r" and c: "mem = mapIndex r memMetric"
      by blast
    have "\<forall>k v. r k = Some v \<longrightarrow> 0 \<le> v"
      using processData_nonneg [OF r] result0_nonneg by blast
    with c show ?thesis by (simp add: mapIndex_nonneg)
  qed
next
  assume a: "None \<notin> set vs \<and> (\<forall>v\<in>set (presentValues vs). v < 0)"
  then have "Max (set (0 # presentValues vs)) = 0"
    by (intro Max_eqI) auto
  with a show "scanValues vs 0 = Inr 0"
    by (simp add: scanValues_Max)
qed

text \<open>
  A response with only negative values gives (0, 0); a series with a negative and a
  positive value gives the positive one.
\<close>

theorem values_never_negative_witness:
  "snd (getDeploymentMetrics
          (sampleWorld (\<lambda>n. dataResponse [series cpuMetric [Some (- 1), Some (- 0.5)],
                                            series memMetric [Some (- 3), None]]) [''a''])
          sampleConfig False ''a'' ''2024-07-18T00:00:00+08:00'' ''2024-07-18T13:00:00+08:00'')
     = Inr (0, 0)
   \<and> scanValues [Some \<lparr>Value = Some (- 1)\<rparr>, Some \<lparr>Value = Some (- 0.5)\<rparr>] 0 = Inr 0
   \<and> snd (getDeploymentMetrics
          (sampleWorld (\<lambda>n. dataResponse [series cpuMetric [Some (- 1), Some 0.25]]) [''a''])
          sampleConfig False ''a'' ''2024-07-18T00:00:00+08:00'' ''2024-07-18T13:00:00+08:00'')
     = Inr (0.25, 0)"
  using values_never_negative [of
      "sampleWorld (\<lambda>n. dataResponse [series cpuMetric [Some (- 1), Some (- 0.5)],
                                        series memMetric [Some (- 3), None]]) [''a'']"
      sampleConfig False "''a''" "''2024-07-18T00:00:00+08:00''" "''2024-07-18T13:00:00+08:00''" 0 0
      "[Some \<lparr>Value = Some (- 1)\<rparr>, Some \<lparr>Value = Some (- 0.5)\<rparr>]"]
  by (simp add: sample_run)

subsection \<open>Entries without a name or without data points\<close>

text \<open>
  C5. An entry of the response that has no name or no data points is skipped: the
  function does what it does on the response without that entry. So when no entry named
  after a metric has data points, the value returned for that metric is the default 0.0.
\<close>

theorem entries_without_data_are_skipped:
  "(DescribeStatisticData w (newClient config) (buildRequest config name s e) = dataResponse (xs @ Some m # ys)
      \<and> DescribeStatisticData w' (newClient config) (buildRequest config name s e) = dataResponse (xs @ ys)
      \<and> (MetricName m = None \<or> noPoints m) \<longrightarrow>
      snd (getDeploymentMetrics w config dbg name s e) = snd (getDeploymentMetrics w' config dbg name s e))
   \<and> (DescribeStatisticData w (newClient config) (buildRequest config name s e) = dataResponse data
      \<and> (\<forall>m'. Some m' \<in> set data \<and> MetricName m' = Some n \<longrightarrow> noPoints m')
      \<and> snd (getDeploymentMetrics w config dbg name s e) = Inr (cpu, mem) \<longrightarrow>
      (n = cpuMetric \<longrightarrow> cpu = 0) \<and> (n = memMetric \<longrightarrow> mem = 0))"
proof (intro conjI impI)
  assume a: "DescribeStatisticData w (newClient config) (buildRequest config name s e) = dataResponse (xs @ Some m # ys)
      \<and> DescribeStatisticData w' (newClient config) (buildRequest config name s e) = dataResponse (xs @ ys)
      \<and> (MetricName m = None \<or> noPoints m)"
  then have "processData (xs @ Some m # ys) result0 = processData (xs @ ys) result0"
    by (simp add: processData_append processMetric_skip split: sum.splits)
  with a show "snd (getDeploymentMetrics w config dbg name s e) = snd (getDeploymentMetrics w' config dbg name s e)"
    by (simp add: getDeploymentMetrics_NoError)
next
  assume a: "DescribeStatisticData w (newClient config) (buildRequest config name s e) = dataResponse data
      \<and> (\<forall>m'. Some m' \<in> set data \<and> MetricName m' = Some n \<longrightarrow> noPoints m')
      \<and> snd (getDeploymentMetrics w config dbg name s e) = Inr (cpu, mem)"
  then obtain r where r: "processData data result0 = Inr r"
    and v: "cpu = mapIndex r cpuMetric" "mem = mapIndex r memMetric"
    by (auto simp: getDeploymentMetrics_NoError split: sum.splits)
  from a have "r n = result0 n"
    using processData_keeps_noPoints [OF r] by blast
  then have "mapIndex r n = mapIndex result0 n"
    by (simp add: mapIndex_def)
  with v show "n = cpuMetric \<Longrightarrow> cpu = 0" and "n = memMetric \<Longrightarrow> mem = 0"
    by (simp_all add: mapIndex_result0)
qed

text \<open>
  A response with an entry without points between two entries with data, the same
  response without it, and a response whose CPU entries have no points.
\<close>

theorem entries_without_data_are_skipped_witness:
  "snd (getDeploymentMetrics
          (sampleWorld (\<lambda>n. dataResponse
             [series cpuMetric [Some 0.4],
              Some \<lparr>MetricName = Some memMetric, Points = []\<rparr>,
              series memMetric [Some 0.9]]) [''a''])
          sampleConfig False ''a'' ''2024-07-18T00:00:00+08:00'' ''2024-07-18T13:00:00+08:00'')
     = Inr (0.4, 0.9)
   \<and> snd (getDeploymentMetrics
          (sampleWorld (\<lambda>n. dataResponse [series cpuMetric [Some 0.4], series memMetric [Some 0.9]]) [''a''])
          sampleConfig False ''a'' ''2024-07-18T00:00:00+08:00'' ''2024-07-18T13:00:00+08:00'')
     = Inr (0.4, 0.9)
   \<and> snd (getDeploymentMetrics
          (sampleWorld (\<lambda>n. dataResponse
             [Some \<lparr>MetricName = Some cpuMetric, Points = []\<rparr>,
              Some \<lparr>MetricName = None, Points = [Some \<lparr>Values = [Some \<lparr>Value = Some 0.7\<rparr>]\<rparr>]\<rparr>,
              Some \<lparr>MetricName = Some cpuMetric, Points = [Some \<lparr>Values = []\<rparr>]\<rparr>,
              series memMetric [Some 0.9]]) [''a''])
          sampleConfig False ''a'' ''2024-07-18T00:00:00+08:00'' ''2024-07-18T13:00:00+08:00'')
     = Inr (0, 0.9)"
  using entries_without_data_are_skipped [where
      w = "sampleWorld (\<lambda>n. dataResponse
             [series cpuMetric [Some 0.4],
              Some \<lparr>MetricName = Some memMetric, Points = []\<rparr>,
              series memMetric [Some 0.9]]) [''a'']"
      and w' = "sampleWorld (\<lambda>n. dataResponse [series cpuMetric [Some 0.4], series memMetric [Some 0.9]]) [''a'']"
      and config = sampleConfig and name = "''a''" and dbg = False
      and s = "''2024-07-18T00:00:00+08:00''" and e = "''2024-07-18T13:00:00+08:00''"
      and xs = "[series cpuMetric [Some 0.4]]" and m = "\<lparr>MetricName = Some memMetric, Points = []\<rparr>"
      and ys = "[series memMetric [Some 0.9]]"]
    entries_without_data_are_skipped [where
      w = "sampleWorld (\<lambda>n. dataResponse
             [Some \<lparr>MetricName = Some cpuMetric, Points = []\<rparr>,
              Some \<lparr>MetricName = None, Points = [Some \<lparr>Values = [Some \<lparr>Value = Some 0.7\<rparr>]\<rparr>]\<rparr>,
              Some \<lparr>MetricName = Some cpuMetric, Points = [Some \<lparr>Values = []\<rparr>]\<rparr>,
              series memMetric [Some 0.9]]) [''a'']"
      and config = sampleConfig and name = "''a''" and dbg = False
      and s = "''2024-07-18T00:00:00+08:00''" and e = "''2024-07-18T13:00:00+08:00''"
      and data = "[Some \<lparr>MetricName = Some cpuMetric, Points = []\<rparr>,
              Some \<lparr>MetricName = None, Points = [Some \<lparr>Values = [Some \<lparr>Value = Some 0.7\<rparr>]\<rparr>]\<rparr>,
              Some \<lparr>MetricName = Some cpuMetric, Points = [Some \<lparr>Values = []\<rparr>]\<rparr>,
              series memMetric [Some 0.9]]"
      and n = cpuMetric and cpu = 0 and mem = "0.9"]
  by (simp add: sample_run noPoints_def)

subsection \<open>The reduction of a series\<close>

text \<open>
  C1, as amended. An entry of the response that has a name and a first series with at
  least one point assigns to its metric the greatest of 0 and the values of that series
  that are not null: the scan starts at 0 and passes over null values. When the function
  returns, this is the value it returns for the metric, unless a later entry has the same
  name. For a series with no negative value it is the largest value seen, and 0 when
  every value is null.
\<close>

theorem first_series_maximum:
  assumes "MetricName m = Some n" and "Points m = Some p # ps" and "Values p \<noteq> []"
  shows "(None \<notin> set (Values p) \<longrightarrow>
            processMetric result (Some m) =
              Inr (result(n \<mapsto> Max (insert 0 (set (presentValues (Values p)))))))
       \<and> (DescribeStatisticData w (newClient config) (buildRequest config name s e)
              = dataResponse (xs @ Some m # ys)
            \<and> (\<forall>e\<in>set ys. nameOf e \<noteq> Some n)
            \<and> snd (getDeploymentMetrics w config dbg name s e) = Inr (cpu, mem) \<longrightarrow>
            (n = cpuMetric \<longrightarrow> cpu = Max (insert 0 (set (presentValues (Values p)))))
            \<and> (n = memMetric \<longrightarrow> mem = Max (insert 0 (set (presentValues (Values p))))))
       \<and> ((\<forall>x\<in>set (presentValues (Values p)). 0 \<le> x) \<longrightarrow>
            Max (insert 0 (set (presentValues (Values p)))) = maxSeen (Values p))"
proof (intro conjI impI)
  assume "None \<notin> set (Values p)"
  from scanValues_Max [OF this, of 0] assms
  show "processMetric result (Some m) =
          Inr (result(n \<mapsto> Max (insert 0 (set (presentValues (Values p))))))"
    by (simp add: processMetric_def)
next
  assume a: "DescribeStatisticData w (newClient config) (buildRequest config name s e)
              = dataResponse (xs @ Some m # ys)
            \<and> (\<forall>e\<in>set ys. nameOf e \<noteq> Some n)
            \<and> snd (getDeploymentMetrics w config dbg name s e) = Inr (cpu, mem)"
  then obtain r where r: "processData (xs @ Some m # ys) result0 = Inr r"
    and v: "cpu = mapIndex r cpuMetric" "mem = mapIndex r memMetric"
    by (auto simp: getDeploymentMetrics_NoError split: sum.splits)
  from assms(2,3) have data: "\<not> noPoints m" by (simp add: noPoints_def)
  from a have last: "\<forall>e\<in>set ys. nameOf e \<noteq> Some n" by simp
  from last_entry_value [OF r assms(1) data last] assms(2) obtain v
    where scan: "scanValues (Values p) 0 = Inr v" and rn: "r n = Some v"
    by auto
  from scan have "None \<notin> set (Values p)"
    using scanValues_Inl_iff [of "Values p" 0] by auto
  from scanValues_Max [OF this, of 0] scan
  have "v = Max (insert 0 (set (presentValues (Values p))))" by simp
  with rn have "mapIndex r n = Max (insert 0 (set (presentValues (Values p))))"
    by (simp add: mapIndex_def)
  with v show "n = cpuMetric \<Longrightarrow> cpu = Max (insert 0 (set (presentValues (Values p))))"
    and "n = memMetric \<Longrightarrow> mem = Max (insert 0 (set (presentValues (Values p))))"
    by simp_all
next
  assume "\<forall>x\<in>set (presentValues (Values p)). 0 \<le> x"
  then show "Max (insert 0 (set (presentValues (Values p)))) = maxSeen (Values p)"
    by (rule Max_insert_nonneg)
qed

text \<open>
  The values 0.2, 0.8, 0.5 and null are reduced to 0.8, and two null values to 0.
\<close>

theorem first_series_maximum_witness:
  "snd (getDeploymentMetrics
          (sampleWorld (\<lambda>n. dataResponse [series cpuMetric [Some 0.2, Some 0.8, Some 0.5, None]]) [''a''])
          sampleConfig False ''a'' ''2024-07-18T00:00:00+08:00'' ''2024-07-18T13:00:00+08:00'')
     = Inr (0.8, 0)
   \<and> processMetric result0 (series cpuMetric [Some 0.2, Some 0.8, Some 0.5, None])
     = Inr (result0(cpuMetric \<mapsto> 0.8))
   \<and> maxSeen [Some \<lparr>Value = Some 0.2\<rparr>, Some \<lparr>Value = Some 0.8\<rparr>, Some \<lparr>Value = Some 0.5\<rparr>, Some \<lparr>Value = None\<rparr>]
     = 0.8
   \<and> snd (getDeploymentMetrics
          (sampleWorld (\<lambda>n. dataResponse [series memMetric [None, None]]) [''a''])
          sampleConfig False ''a'' ''2024-07-18T00:00:00+08:00'' ''2024-07-18T13:00:00+08:00'')
     = Inr (0, 0)"
  using first_series_maximum [where
      w = "sampleWorld (\<lambda>n. dataResponse [series cpuMetric [Some 0.2, Some 0.8, Some 0.5, None]]) [''a'']"
      and config = sampleConfig and name = "''a''" and dbg = False
      and s = "''2024-07-18T00:00:00+08:00''" and e = "''2024-07-18T13:00:00+08:00''"
      and xs = "[]" and ys = "[]" and n = cpuMetric and ps = "[]" and result = result0
      and m = "\<lparr>MetricName = Some cpuMetric, Points = [Some \<lparr>Values =
          [Some \<lparr>Value = Some 0.2\<rparr>, Some \<lparr>Value = Some 0.8\<rparr>, Some \<lparr>Value = Some 0.5\<rparr>, Some \<lparr>Value = None\<rparr>]\<rparr>]\<rparr>"
      and p = "\<lparr>Values =
          [Some \<lparr>Value = Some 0.2\<rparr>, Some \<lparr>Value = Some 0.8\<rparr>, Some \<lparr>Value = Some 0.5\<rparr>, Some \<lparr>Value = None\<rparr>]\<rparr>"
      and cpu = "0.8" and mem = 0]
    first_series_maximum [where
      w = "sampleWorld (\<lambda>n. dataResponse [series memMetric [None, None]]) [''a'']"
      and config = sampleConfig and name = "''a''" and dbg = False
      and s = "''2024-07-18T00:00:00+08:00''" and e = "''2024-07-18T13:00:00+08:00''"
      and xs = "[]" and ys = "[]" and n = memMetric and ps = "[]" and result = result0
      and m = "\<lparr>MetricName = Some memMetric, Points = [Some \<lparr>Values =
          [Some \<lparr>Value = None\<rparr>, Some \<lparr>Value = None\<rparr>]\<rparr>]\<rparr>"
      and p = "\<lparr>Values = [Some \<lparr>Value = None\<rparr>, Some \<lparr>Value = None\<rparr>]\<rparr>"
      and cpu = 0 and mem = 0]
  by (simp add: sample_run maxSeen_def)

text \<open>
  C1 as the specification words it does not hold of a series whose values, where
  present, are all negative: for the values -1 and null the largest value seen is -1, and
  the function returns 0.
\<close>

theorem maximum_seen_counterexample:
  "snd (getDeploymentMetrics
          (sampleWorld (\<lambda>n. dataResponse [series cpuMetric [Some (- 1), None]]) [''a''])
          sampleConfig False ''a'' ''2024-07-18T00:00:00+08:00'' ''2024-07-18T13:00:00+08:00'')
     = Inr (0, 0)
   \<and> maxSeen [Some \<lparr>Value = Some (- 1)\<rparr>, Some \<lparr>Value = None\<rparr>] = - 1"
  by (simp add: sample_run maxSeen_def)

subsection \<open>Entries with the same name\<close>

text \<open>
  C10. When several entries of the response have the same name, the maximum of the last
  of them overwrites those of the earlier ones: if the last entry named \<open>n\<close> has data
  points, the value returned for \<open>n\<close> is the one that the response made of that entry
  alone gives, whatever stands before it.
\<close>

theorem last_duplicate_wins:
  assumes "DescribeStatisticData w (newClient config) (buildRequest config name s e)
             = dataResponse (xs @ Some m # ys)"
    and "DescribeStatisticData w' (newClient config) (buildRequest config name s e)
             = dataResponse [Some m]"
    and "MetricName m = Some n" and "\<not> noPoints m"
    and "\<forall>e\<in>set ys. nameOf e \<noteq> Some n"
    and "snd (getDeploymentMetrics w config dbg name s e) = Inr (cpu, mem)"
  shows "\<exists>cpu' mem'. snd (getDeploymentMetrics w' config dbg name s e) = Inr (cpu', mem')
           \<and> (n = cpuMetric \<longrightarrow> cpu = cpu') \<and> (n = memMetric \<longrightarrow> mem = mem')"
proof -
  from assms(1,6) obtain r where r: "processData (xs @ Some m # ys) result0 = Inr r"
    and v: "cpu = mapIndex r cpuMetric" "mem = mapIndex r memMetric"
    by (auto simp: getDeploymentMetrics_NoError split: sum.splits)
  from last_entry_value [OF r assms(3,4,5)] obtain p ps v
    where p: "Points m = Some p # ps" "Values p \<noteq> []" "scanValues (Values p) 0 = Inr v"
      and rn: "r n = Some v"
    by blast
  from p assms(3) have alone: "processData [Some m] result0 = Inr (result0(n \<mapsto> v))"
    by (simp add: processMetric_def)
  have "mapIndex (result0(n \<mapsto> v)) n = mapIndex r n"
    using rn by (simp add: mapIndex_def)
  with v show ?thesis
    unfolding getDeploymentMetrics_NoError [OF assms(2)] alone by auto
qed

text \<open>
  Two CPU entries with the maxima 0.9 and 0.3, in this order: the function returns 0.3,
  as for the second entry alone, and not the larger 0.9.
\<close>

theorem last_duplicate_wins_witness:
  "snd (getDeploymentMetrics
          (sampleWorld (\<lambda>n. dataResponse
             [series cpuMetric [Some 0.9], series memMetric [Some 0.4], series cpuMetric [Some 0.3]]) [''a''])
          sampleConfig False ''a'' ''2024-07-18T00:00:00+08:00'' ''2024-07-18T13:00:00+08:00'')
     = Inr (0.3, 0.4)
   \<and> snd (getDeploymentMetrics
          (sampleWorld (\<lambda>n. dataResponse [series cpuMetric [Some 0.3]]) [''a''])
          sampleConfig False ''a'' ''2024-07-18T00:00:00+08:00'' ''2024-07-18T13:00:00+08:00'')
     = Inr (0.3, 0)"
  using last_duplicate_wins [where
      w = "sampleWorld (\<lambda>n. dataResponse
             [series cpuMetric [Some 0.9], series memMetric [Some 0.4], series cpuMetric [Some 0.3]]) [''a'']"
      and w' = "sampleWorld (\<lambda>n. dataResponse [series cpuMetric [Some 0.3]]) [''a'']"
      and config = sampleConfig and name = "''a''" and dbg = False
      and s = "''2024-07-18T00:00:00+08:00''" and e = "''2024-07-18T13:00:00+08:00''"
      and xs = "[series cpuMetric [Some 0.9], series memMetric [Some 0.4]]"
      and m = "\<lparr>MetricName = Some cpuMetric, Points = [Some \<lparr>Values = [Some \<lparr>Value = Some 0.3\<rparr>]\<rparr>]\<rparr>"
      and ys = "[]" and n = cpuMetric and cpu = "0.3" and mem = "0.4"]
  by (simp add: sample_run noPoints_def)

subsection \<open>Selection by name\<close>

text \<open>
  C4. The two values are taken from the response by metric name and not by position.
  When the entries of a response have distinct names, a response with the same entries
  in another order gives the same outcome. And the entries whose name is neither of the
  two requested names have no effect: whenever the function returns two values, it
  returns the same two values on the response without those entries.
\<close>

theorem selected_by_name:
  "(DescribeStatisticData w (newClient config) (buildRequest config name s e) = dataResponse xs
      \<and> DescribeStatisticData w' (newClient config) (buildRequest config name s e) = dataResponse ys
      \<and> mset xs = mset ys \<and> distinct (entryNames xs) \<longrightarrow>
      snd (getDeploymentMetrics w config dbg name s e) = snd (getDeploymentMetrics w' config dbg name s e))
   \<and> (DescribeStatisticData v (newClient config) (buildRequest config name s e) = dataResponse zs
      \<and> DescribeStatisticData v' (newClient config) (buildRequest config name s e) =
          dataResponse (filter (\<lambda>e. case nameOf e of None \<Rightarrow> True
                                          | Some n \<Rightarrow> n = cpuMetric \<or> n = memMetric) zs)
      \<and> snd (getDeploymentMetrics v config dbg name s e) = Inr r \<longrightarrow>
      snd (getDeploymentMetrics v' config dbg name s e) = Inr r)"
proof (intro conjI impI)
  assume a: "DescribeStatisticData w (newClient config) (buildRequest config name s e) = dataResponse xs
      \<and> DescribeStatisticData w' (newClient config) (buildRequest config name s e) = dataResponse ys
      \<and> mset xs = mset ys \<and> distinct (entryNames xs)"
  then have "processData xs result0 = processData ys result0"
    by (simp add: processData_permute)
  with a show "snd (getDeploymentMetrics w config dbg name s e) = snd (getDeploymentMetrics w' config dbg name s e)"
    by (simp add: getDeploymentMetrics_NoError)
next
  let ?keep = "filter (\<lambda>e. \<forall>n. nameOf e = Some n \<longrightarrow> n \<in> {cpuMetric, memMetric}) zs"
  assume a: "DescribeStatisticData v (newClient config) (buildRequest config name s e) = dataResponse zs
      \<and> DescribeStatisticData v' (newClient config) (buildRequest config name s e) =
          dataResponse (filter (\<lambda>e. case nameOf e of None \<Rightarrow> True
                                          | Some n \<Rightarrow> n = cpuMetric \<or> n = memMetric) zs)
      \<and> snd (getDeploymentMetrics v config dbg name s e) = Inr r"
  then have api': "DescribeStatisticData v' (newClient config) (buildRequest config name s e) = dataResponse ?keep"
    by (simp add: requested_filter)
  from a obtain r1 where r1: "processData zs result0 = Inr r1"
    and r: "r = (mapIndex r1 cpuMetric, mapIndex r1 memMetric)"
    by (auto simp: getDeploymentMetrics_NoError split: sum.splits)
  have "\<forall>k\<in>{cpuMetric, memMetric}. result0 k = result0 k" by simp
  from processData_drop [OF this r1] obtain r2
    where r2: "processData ?keep result0 = Inr r2"
      and agree: "\<forall>k\<in>{cpuMetric, memMetric}. r1 k = r2 k"
    by blast
  from agree have "mapIndex r1 cpuMetric = mapIndex r2 cpuMetric" "mapIndex r1 memMetric = mapIndex r2 memMetric"
    by (simp_all add: mapIndex_def)
  with r r2 show "snd (getDeploymentMetrics v' config dbg name s e) = Inr r"
    by (simp add: getDeploymentMetrics_NoError [OF api'])
qed

text \<open>
  Three entries, the memory entry last; the same entries with the memory entry first;
  and the response without the entry of the third metric: (0.9, 0.4) each time.
\<close>

theorem selected_by_name_witness:
  "snd (getDeploymentMetrics
          (sampleWorld (\<lambda>n. dataResponse
             [series cpuMetric [Some 0.9], series ''K8sWorkloadPodTotal'' [Some 7], series memMetric [Some 0.4]]) [''a''])
          sampleConfig False ''a'' ''2024-07-18T00:00:00+08:00'' ''2024-07-18T13:00:00+08:00'')
     = Inr (0.9, 0.4)
   \<and> snd (getDeploymentMetrics
          (sampleWorld (\<lambda>n. dataResponse
             [series memMetric [Some 0.4], series cpuMetric [Some 0.9], series ''K8sWorkloadPodTotal'' [Some 7]]) [''a''])
          sampleConfig False ''a'' ''2024-07-18T00:00:00+08:00'' ''2024-07-18T13:00:00+08:00'')
     = Inr (0.9, 0.4)
   \<and> snd (getDeploymentMetrics
          (sampleWorld (\<lambda>n. dataResponse [series cpuMetric [Some 0.9], series memMetric [Some 0.4]]) [''a''])
          sampleConfig False ''a'' ''2024-07-18T00:00:00+08:00'' ''2024-07-18T13:00:00+08:00'')
     = Inr (0.9, 0.4)"
  using selected_by_name [where
      w = "sampleWorld (\<lambda>n. dataResponse
             [series cpuMetric [Some 0.9], series ''K8sWorkloadPodTotal'' [Some 7], series memMetric [Some 0.4]]) [''a'']"
      and w' = "sampleWorld (\<lambda>n. dataResponse
             [series memMetric [Some 0.4], series cpuMetric [Some 0.9], series ''K8sWorkloadPodTotal'' [Some 7]]) [''a'']"
      and v = "sampleWorld (\<lambda>n. dataResponse
             [series cpuMetric [Some 0.9], series ''K8sWorkloadPodTotal'' [Some 7], series memMetric [Some 0.4]]) [''a'']"
      and v' = "sampleWorld (\<lambda>n. dataResponse [series cpuMetric [Some 0.9], series memMetric [Some 0.4]]) [''a'']"
      and config = sampleConfig and name = "''a''" and dbg = False
      and s = "''2024-07-18T00:00:00+08:00''" and e = "''2024-07-18T13:00:00+08:00''"
      and xs = "[series cpuMetric [Some 0.9], series ''K8sWorkloadPodTotal'' [Some 7], series memMetric [Some 0.4]]"
      and ys = "[series memMetric [Some 0.4], series cpuMetric [Some 0.9], series ''K8sWorkloadPodTotal'' [Some 7]]"
      and zs = "[series cpuMetric [Some 0.9], series ''K8sWorkloadPodTotal'' [Some 7], series memMetric [Some 0.4]]"
      and r = "(0.9, 0.4)"]
  by (simp add: sample_run)

subsection \<open>The report\<close>

text \<open>
  C7. Let the configuration be read and the window parsed, and let the cluster list
  \<open>items\<close>. The file that main creates is named
  \<^verbatim>\<open>deployments_metrics_<namespace>_<start>_to_<end>.csv\<close>, both times rendered with the
  layout \<^verbatim>\<open>20060102T150405\<close>. When the configuration is valid, the file can be created
  and \<open>getDeploymentMetrics\<close> returns for every listed deployment, main ends with the
  fixed header as first record, followed by one record per listed deployment in the order
  of the listing: the namespace, the deployment's name and its two values. And a run of
  main that reaches its end has written exactly such a file.
\<close>

theorem report_file:
  assumes "ReadFile w (configPath fl) = Inr data"
    and "yamlUnmarshal w data = Inr config"
    and "timeParse w RFC3339 (startTimeStr fl) = Inr startTime"
    and "timeParse w RFC3339 (endTimeStr fl) = Inr endTime"
    and "BuildConfigFromFlags w '''' (kubeconfig fl) = Inr kc"
    and "NewForConfig w kc = Inr clientset"
    and "listDeployments w clientset (Namespace config) = Inr items"
    and "name = ''deployments_metrics_'' @ Namespace config @ ''_'' @
                timeFormat w startTime ''20060102T150405'' @ ''_to_'' @
                timeFormat w endTime ''20060102T150405'' @ ''.csv''"
  shows "(validate config = None \<and> osCreate w name = None
          \<and> list_all2 (\<lambda>d v. snd (getDeploymentMetrics w config (debug fl) d
                                    (timeFormat w startTime RFC3339) (timeFormat w endTime RFC3339)) = Inr v)
               items vals \<longrightarrow>
          snd (main w fl) =
            Inr (name,
                 [''Namespace'', ''Deployment'', ''CPU Usage Max (percent)'', ''Memory Usage Max (percent)''] #
                 map2 (\<lambda>d (cpu, mem). [Namespace config, d, sprintf_f w cpu, sprintf_f w mem]) items vals))
       \<and> (snd (main w fl) = Inr (filename, rows) \<longrightarrow>
          filename = name
          \<and> (\<exists>vs. list_all2 (\<lambda>d v. snd (getDeploymentMetrics w config (debug fl) d
                                    (timeFormat w startTime RFC3339) (timeFormat w endTime RFC3339)) = Inr v)
                     items vs
                \<and> rows = [''Namespace'', ''Deployment'', ''CPU Usage Max (percent)'', ''Memory Usage Max (percent)''] #
                         map2 (\<lambda>d (cpu, mem). [Namespace config, d, sprintf_f w cpu, sprintf_f w mem]) items vs))"
proof (intro conjI impI)
  from assms(3,4) have win: "parseTimeWindow w fl = Inr (startTime, endTime)"
    by (simp add: parseTimeWindow_def)
  {
    assume a: "validate config = None \<and> osCreate w name = None
          \<and> list_all2 (\<lambda>d v. snd (getDeploymentMetrics w config (debug fl) d
                                    (timeFormat w startTime RFC3339) (timeFormat w endTime RFC3339)) = Inr v)
               items vals"
    then have "snd (writeRows w config (debug fl) (timeFormat w startTime RFC3339)
                     (timeFormat w endTime RFC3339) items) =
        Inr (map2 (\<lambda>d (cpu, mem). [Namespace config, d, sprintf_f w cpu, sprintf_f w mem]) items vals)"
      by (simp add: writeRows_complete)
    then obtain l where "writeRows w config (debug fl) (timeFormat w startTime RFC3339)
                     (timeFormat w endTime RFC3339) items =
        (l, Inr (map2 (\<lambda>d (cpu, mem). [Namespace config, d, sprintf_f w cpu, sprintf_f w mem]) items vals))"
      by (cases "writeRows w config (debug fl) (timeFormat w startTime RFC3339)
                     (timeFormat w endTime RFC3339) items") simp
    with a assms(1,2,5,6,7) win
    show "snd (main w fl) =
            Inr (name,
                 [''Namespace'', ''Deployment'', ''CPU Usage Max (percent)'', ''Memory Usage Max (percent)''] #
                 map2 (\<lambda>d (cpu, mem). [Namespace config, d, sprintf_f w cpu, sprintf_f w mem]) items vals)"
      by (simp add: main_def csvHeader_def assms(8))
  }
  {
    assume ret: "snd (main w fl) = Inr (filename, rows)"
    then have valid: "validate config = None"
      using assms(1,2) by (cases "validate config") (simp_all add: main_def)
    from ret have created: "osCreate w name = None"
      using assms(1,2,5,6,7) win valid by (cases "osCreate w name") (simp_all add: main_def assms(8))
    from ret obtain l rest
      where loop: "writeRows w config (debug fl) (timeFormat w startTime RFC3339)
                     (timeFormat w endTime RFC3339) items = (l, Inr rest)"
        and out: "filename = name" "rows = csvHeader # rest"
      using assms(1,2,5,6,7) win valid created
      by (auto simp: main_def assms(8) split: prod.splits sum.splits)
    from out show "filename = name" by simp
    from writeRows_Inr [OF loop] out
    show "\<exists>vs. list_all2 (\<lambda>d v. snd (getDeploymentMetrics w config (debug fl) d
                                    (timeFormat w startTime RFC3339) (timeFormat w endTime RFC3339)) = Inr v)
                     items vs
                \<and> rows = [''Namespace'', ''Deployment'', ''CPU Usage Max (percent)'', ''Memory Usage Max (percent)''] #
                         map2 (\<lambda>d (cpu, mem). [Namespace config, d, sprintf_f w cpu, sprintf_f w mem]) items vs"
      by (simp add: csvHeader_def)
  }
qed

text \<open>
  The deployments a and b in the namespace ns, with 0.9 and 0.4 for a (the memory entry
  first in the response) and no data for b.
\<close>

theorem report_file_witness:
  "main (sampleWorld (\<lambda>n. if n = ''a'' then dataResponse [series memMetric [Some 0.4], series cpuMetric [Some 0.9]]
                            else dataResponse []) [''a'', ''b''])
        sampleFlags =
     ([(INFO, ''start collect ns/a metrics.''), (INFO, ''start collect ns/b metrics.'')],
      Inr (''deployments_metrics_ns_20240718T000000_to_20240718T130000.csv'',
           [[''Namespace'', ''Deployment'', ''CPU Usage Max (percent)'', ''Memory Usage Max (percent)''],
            [''ns'', ''a'', ''0.900000'', ''0.400000''],
            [''ns'', ''b'', ''0.000000'', ''0.000000'']]))"
  using report_file [where
      w = "sampleWorld (\<lambda>n. if n = ''a'' then dataResponse [series memMetric [Some 0.4], series cpuMetric [Some 0.9]]
                            else dataResponse []) [''a'', ''b'']"
      and fl = sampleFlags and data = "''region: ap-guangzhou''" and config = sampleConfig
      and startTime = 1721232000 and endTime = 1721278800 and kc = "()" and clientset = "()"
      and items = "[''a'', ''b'']" and vals = "[(0.9, 0.4), (0, 0)]"
      and name = "''deployments_metrics_ns_20240718T000000_to_20240718T130000.csv''"
      and filename = "''deployments_metrics_ns_20240718T000000_to_20240718T130000.csv''"
      and rows = "[[''Namespace'', ''Deployment'', ''CPU Usage Max (percent)'', ''Memory Usage Max (percent)''],
            [''ns'', ''a'', ''0.900000'', ''0.400000''],
            [''ns'', ''b'', ''0.000000'', ''0.000000'']]"]
  by (simp add: sample_run sample_main)

end
